theory Spec2Isabelle
  imports Complex_Main "HOL-Library.Word"
begin

section \<open>The replay context of tcpreplay_api.c\<close>

text \<open>
  A shallow embedding of \<^verbatim>\<open>src/tcpreplay_api.c\<close>: the context and option structures as
  records, every API function as a function from the context to its return value and the
  updated context. C \<^verbatim>\<open>int\<close> values are \<open>int\<close> (the file only compares and copies them,
  and adds one to a count that is below \<open>MAX_FILES\<close>); \<^verbatim>\<open>u_int32_t\<close> and \<^verbatim>\<open>COUNTER\<close> are
  words, so that the post-decrement of the loop counter wraps as in C; the \<^verbatim>\<open>float\<close> of
  the speed is \<open>real\<close> (the file stores it and never computes with it). A pointer that
  the code tests against \<^verbatim>\<open>NULL\<close> is an \<open>option\<close>; writing through such a pointer when it
  is \<open>None\<close> is the fault \<open>NullDeref\<close>. A call that never returns is the value \<open>None\<close> of
  the outer \<open>option\<close> of the loops.
\<close>

type_synonym COUNTER = "64 word"
type_synonym u_int32_t = "32 word"

record timeval =
  tv_sec :: int
  tv_usec :: int

datatype tcpreplay_speed_mode =
  speed_multiplier | speed_mbpsrate | speed_packetrate | speed_topspeed | speed_oneatatime

datatype tcpreplay_accurate =
  accurate_gtod | accurate_select | accurate_rdtsc | accurate_ioport
  | accurate_nanosleep | accurate_abs_time

text \<open>
  The switch of \<^verbatim>\<open>tcpreplay_replay\<close> knows three source types and has a default branch
  for every other stored value; \<open>source_invalid n\<close> is such a value, \<open>n\<close> what \<^verbatim>\<open>%d\<close>
  prints of it.
\<close>

datatype tcpreplay_source_type =
  source_filename | source_fd | source_cache | source_invalid int

typedecl tcpreplay_manual_callback
typedecl sendpacket_t
typedecl interface_list_t
typedecl packet_cache_t

record tcpreplay_speed_t =
  mode :: tcpreplay_speed_mode
  speed :: real
  pps_multi :: int
  manual_callback :: "tcpreplay_manual_callback option"

record tcpreplay_source_t =
  type :: tcpreplay_source_type
  fd :: int
  filename :: "string option"

text \<open>
  One entry of the file cache. \<open>packet_cache\<close> is the head of a linked list of cached
  packets; the empty list is the \<^verbatim>\<open>NULL\<close> head.
\<close>

record file_cache_t =
  index :: int
  cached :: bool
  packet_cache :: "packet_cache_t list"

text \<open>
  The options. \<open>sources\<close> is the array inside the structure, indexed by the C \<^verbatim>\<open>int\<close>
  the code indexes it with; its bound is not part of the model (the only write is at
  \<open>source_cnt\<close>, under the test against \<open>MAX_FILES\<close>). \<open>file_cache\<close> is a pointer to an
  array that the code compares with \<^verbatim>\<open>NULL\<close> (\<^verbatim>\<open>tcpreplay_replay\<close>, \<^verbatim>\<open>tcpreplay_close\<close>),
  so it is optional here. The C field \<^verbatim>\<open>speed\<close> of the options is \<open>speed_opt\<close>, since
  \<open>speed\<close> is also a field of the speed structure. The fields that exist only under
  \<^verbatim>\<open>ENABLE_VERBOSE\<close> are left out, and so are the functions that do little but call
  into other files (\<^verbatim>\<open>tcpreplay_post_args\<close>, \<^verbatim>\<open>tcpreplay_set_interface\<close>,
  \<^verbatim>\<open>tcpreplay_close\<close>).
\<close>

record tcpreplay_opt_t =
  intf1_name :: "string option"
  intf2_name :: "string option"
  speed_opt :: tcpreplay_speed_t
  loop :: u_int32_t
  sleep_accel :: int
  use_pkthdr_len :: bool
  cache_packets :: COUNTER
  cachedata :: "8 word list option"
  comment :: "string option"
  mtu :: int
  accurate :: tcpreplay_accurate
  limit_send :: COUNTER
  enable_file_cache :: bool
  file_cache :: "(int \<Rightarrow> file_cache_t) option"
  source_cnt :: int
  sources :: "int \<Rightarrow> tcpreplay_source_t"

record tcpreplay_stats_t =
  pkts_sent :: COUNTER
  bytes_sent :: COUNTER
  failed :: COUNTER
  start_time :: timeval
  end_time :: timeval

record tcpreplay_t =
  options :: tcpreplay_opt_t
  intf1 :: "sendpacket_t option"
  intf2 :: "sendpacket_t option"
  intlist :: "interface_list_t option"
  errstr :: string
  warnstr :: string
  stats :: tcpreplay_stats_t
  static_stats :: tcpreplay_stats_t
  running :: bool
  abort :: bool
  suspend :: bool
  current_source :: int
  cache_byte :: int
  cache_bit :: int

datatype fault = NullDeref

subsection \<open>What the file calls and does not define\<close>

text \<open>
  The functions and build settings that \<^verbatim>\<open>tcpreplay_api.c\<close> uses and that live in other
  files are parameters. A per-source driver (\<^verbatim>\<open>replay_file\<close>, \<^verbatim>\<open>replay_fd\<close>,
  \<^verbatim>\<open>replay_cache\<close>) gets the context and the source index and gives back its return code
  and the context as it leaves it. \<open>gettimeofday\<close> is \<open>None\<close> when the call fails, and
  \<open>strerror_errno\<close> is the text \<^verbatim>\<open>strerror(errno)\<close> gives then. \<open>read_cache\<close> gives, for a
  file name, the cache data and the comment it stores through its two pointer arguments
  and the packet count it returns. \<open>sendpacket_abort\<close> is what the call does to an open
  interface. \<open>safe_malloc_ctx\<close> is the memory \<^verbatim>\<open>tcpreplay_init\<close> gets for the context
  and its options, \<open>fcntl_error\<close> the error text when \<^verbatim>\<open>fcntl\<close> on STDERR fails,
  \<open>get_interface_list\<close> the interface list (\<open>None\<close> when built without
  \<^verbatim>\<open>ENABLE_PCAP_FINDALLDEVS\<close>).
\<close>

record externs =
  replay_file :: "tcpreplay_t \<Rightarrow> int \<Rightarrow> int \<times> tcpreplay_t"
  replay_fd :: "tcpreplay_t \<Rightarrow> int \<Rightarrow> int \<times> tcpreplay_t"
  replay_cache :: "tcpreplay_t \<Rightarrow> int \<Rightarrow> int \<times> tcpreplay_t"
  gettimeofday :: "timeval option"
  strerror_errno :: string
  read_cache :: "string \<Rightarrow> 8 word list \<times> COUNTER \<times> string"
  sendpacket_abort :: "sendpacket_t \<Rightarrow> sendpacket_t"
  safe_malloc_ctx :: tcpreplay_t
  fcntl_error :: "string option"
  get_interface_list :: "interface_list_t option"
  HAVE_ABSOLUTE_TIME :: bool
  DEFAULT_MTU :: int

definition MAX_FILES :: int where
  \<comment> \<open>Modelled from the spec: the constant of defines.h, which is not in this file;
      the spec gives its default, 1024.\<close>
  "MAX_FILES = 1024"

definition TCPREPLAY_ERRSTR_LEN :: nat where
  \<comment> \<open>Modelled from the spec: the size of the error and warning buffers, declared in
      tcpreplay_api.h; the spec gives 1024 bytes.\<close>
  "TCPREPLAY_ERRSTR_LEN = 1024"

subsection \<open>Error and warning strings\<close>

function fmt_u :: "nat \<Rightarrow> string" where
  "fmt_u n = (if n < 10 then [char_of (48 + n)]
              else fmt_u (n div 10) @ [char_of (48 + n mod 10)])"
  by pat_completeness auto
termination
  by (relation "measure id") auto

definition fmt_d :: "int \<Rightarrow> string" where
  "fmt_d i = (if i < 0 then CHR ''-'' # fmt_u (nat (- i)) else fmt_u (nat i))"

definition tcpreplay_seterr_at ::
  "tcpreplay_t \<Rightarrow> string \<Rightarrow> int \<Rightarrow> string \<Rightarrow> string \<Rightarrow> tcpreplay_t" where
  \<comment> \<open>\<^verbatim>\<open>__tcpreplay_seterr(ctx, func, line, file, fmt, ...)\<close>; \<open>msg\<close> is the text that
      \<^verbatim>\<open>fmt\<close> and its arguments print. Both \<^verbatim>\<open>snprintf\<close> calls cut at LEN - 2 characters.\<close>
  "tcpreplay_seterr_at ctx func line file msg =
     ctx\<lparr>errstr :=
       take (TCPREPLAY_ERRSTR_LEN - 2)
         (''From '' @ file @ '':'' @ func @ ''() line '' @ fmt_d line @ '':'' @ [CHR 0x0A]
            @ take (TCPREPLAY_ERRSTR_LEN - 2) msg)\<rparr>"

definition tcpreplay_seterr :: "tcpreplay_t \<Rightarrow> string \<Rightarrow> int \<Rightarrow> string \<Rightarrow> tcpreplay_t" where
  \<comment> \<open>The macro \<^verbatim>\<open>tcpreplay_seterr(ctx, fmt, ...)\<close> at a call site in function \<open>func\<close>,
      line \<open>line\<close> of this file.\<close>
  "tcpreplay_seterr ctx func line msg =
     tcpreplay_seterr_at ctx func line ''tcpreplay_api.c'' msg"

definition tcpreplay_setwarn :: "tcpreplay_t \<Rightarrow> string \<Rightarrow> tcpreplay_t" where
  "tcpreplay_setwarn ctx msg = ctx\<lparr>warnstr := take (TCPREPLAY_ERRSTR_LEN - 2) msg\<rparr>"

definition tcpreplay_geterr :: "tcpreplay_t \<Rightarrow> string" where
  "tcpreplay_geterr ctx = errstr ctx"

definition tcpreplay_getwarn :: "tcpreplay_t \<Rightarrow> string" where
  "tcpreplay_getwarn ctx = warnstr ctx"

subsection \<open>Initialisation and setters\<close>

definition tcpreplay_init :: "externs \<Rightarrow> tcpreplay_t" where
  "tcpreplay_init e =
     (let ctx = safe_malloc_ctx e;
          opts = options ctx;
          opts = opts\<lparr>loop := 1\<rparr>;
          opts = opts\<lparr>speed_opt := (speed_opt opts)\<lparr>mode := speed_multiplier, speed := 1\<rparr>\<rparr>;
          opts = opts\<lparr>accurate :=
                   (if HAVE_ABSOLUTE_TIME e then accurate_abs_time else accurate_gtod)\<rparr>;
          opts = opts\<lparr>mtu := DEFAULT_MTU e\<rparr>;
          opts = opts\<lparr>limit_send := - 1\<rparr>;
          ctx = ctx\<lparr>options := opts\<rparr>;
          ctx = (case fcntl_error e of
                   Some msg \<Rightarrow>
                     tcpreplay_setwarn ctx (''Unable to set STDERR to non-blocking: '' @ msg)
                 | None \<Rightarrow> ctx);
          ctx = ctx\<lparr>intlist := get_interface_list e\<rparr>
      in ctx\<lparr>abort := False\<rparr>)"

definition tcpreplay_set_speed_mode ::
  "tcpreplay_t \<Rightarrow> tcpreplay_speed_mode \<Rightarrow> int \<times> tcpreplay_t" where
  "tcpreplay_set_speed_mode ctx v =
     (0, ctx\<lparr>options := (options ctx)\<lparr>speed_opt := (speed_opt (options ctx))\<lparr>mode := v\<rparr>\<rparr>\<rparr>)"

definition tcpreplay_set_speed_speed :: "tcpreplay_t \<Rightarrow> real \<Rightarrow> int \<times> tcpreplay_t" where
  "tcpreplay_set_speed_speed ctx v =
     (0, ctx\<lparr>options := (options ctx)\<lparr>speed_opt := (speed_opt (options ctx))\<lparr>speed := v\<rparr>\<rparr>\<rparr>)"

definition tcpreplay_set_speed_pps_multi :: "tcpreplay_t \<Rightarrow> int \<Rightarrow> int \<times> tcpreplay_t" where
  "tcpreplay_set_speed_pps_multi ctx v =
     (0, ctx\<lparr>options := (options ctx)\<lparr>speed_opt := (speed_opt (options ctx))\<lparr>pps_multi := v\<rparr>\<rparr>\<rparr>)"

definition tcpreplay_set_loop :: "tcpreplay_t \<Rightarrow> u_int32_t \<Rightarrow> int \<times> tcpreplay_t" where
  "tcpreplay_set_loop ctx v = (0, ctx\<lparr>options := (options ctx)\<lparr>loop := v\<rparr>\<rparr>)"

definition tcpreplay_set_sleep_accel :: "tcpreplay_t \<Rightarrow> int \<Rightarrow> int \<times> tcpreplay_t" where
  "tcpreplay_set_sleep_accel ctx v = (0, ctx\<lparr>options := (options ctx)\<lparr>sleep_accel := v\<rparr>\<rparr>)"

definition tcpreplay_set_use_pkthdr_len :: "tcpreplay_t \<Rightarrow> bool \<Rightarrow> int \<times> tcpreplay_t" where
  "tcpreplay_set_use_pkthdr_len ctx v =
     (0, ctx\<lparr>options := (options ctx)\<lparr>use_pkthdr_len := v\<rparr>\<rparr>)"

definition tcpreplay_set_mtu :: "tcpreplay_t \<Rightarrow> int \<Rightarrow> int \<times> tcpreplay_t" where
  "tcpreplay_set_mtu ctx v = (0, ctx\<lparr>options := (options ctx)\<lparr>mtu := v\<rparr>\<rparr>)"

definition tcpreplay_set_accurate ::
  "tcpreplay_t \<Rightarrow> tcpreplay_accurate \<Rightarrow> int \<times> tcpreplay_t" where
  "tcpreplay_set_accurate ctx v = (0, ctx\<lparr>options := (options ctx)\<lparr>accurate := v\<rparr>\<rparr>)"

definition tcpreplay_set_file_cache :: "tcpreplay_t \<Rightarrow> bool \<Rightarrow> int \<times> tcpreplay_t" where
  "tcpreplay_set_file_cache ctx v =
     (0, ctx\<lparr>options := (options ctx)\<lparr>enable_file_cache := v\<rparr>\<rparr>)"

definition tcpreplay_set_limit_send :: "tcpreplay_t \<Rightarrow> COUNTER \<Rightarrow> int \<times> tcpreplay_t" where
  "tcpreplay_set_limit_send ctx v = (0, ctx\<lparr>options := (options ctx)\<lparr>limit_send := v\<rparr>\<rparr>)"

text \<open>
  The three assignments to entry \<open>i\<close> of the file cache, made by \<^verbatim>\<open>tcpreplay_add_pcapfile\<close>
  and by the initialisation loop of \<^verbatim>\<open>tcpreplay_replay\<close>. They go through the pointer
  \<open>file_cache\<close>.
\<close>

definition file_cache_reset :: "tcpreplay_opt_t \<Rightarrow> int \<Rightarrow> fault + tcpreplay_opt_t" where
  "file_cache_reset opts i =
     (case file_cache opts of
        None \<Rightarrow> Inl NullDeref
      | Some fc \<Rightarrow>
          Inr (opts\<lparr>file_cache :=
                 Some (fc(i := (fc i)\<lparr>index := i, cached := False, packet_cache := []\<rparr>))\<rparr>))"

definition tcpreplay_add_pcapfile ::
  "tcpreplay_t \<Rightarrow> string \<Rightarrow> fault + int \<times> tcpreplay_t" where
  "tcpreplay_add_pcapfile ctx pcap_file =
     (if source_cnt (options ctx) < MAX_FILES then
        (let opts = options ctx;
             n = source_cnt opts;
             opts = opts\<lparr>sources := (sources opts)(n := (sources opts n)\<lparr>filename := Some pcap_file\<rparr>)\<rparr>
         in case file_cache_reset opts n of
              Inl f \<Rightarrow> Inl f
            | Inr opts \<Rightarrow> Inr (0, ctx\<lparr>options := opts\<lparr>source_cnt := source_cnt opts + 1\<rparr>\<rparr>))
      else
        Inr (- 1, tcpreplay_seterr ctx ''tcpreplay_add_pcapfile'' 566
                    (''Unable to add more then '' @ fmt_u (nat MAX_FILES) @ '' files'')))"

definition tcpreplay_set_tcpprep_cache ::
  "externs \<Rightarrow> tcpreplay_t \<Rightarrow> string \<Rightarrow> int \<times> tcpreplay_t" where
  "tcpreplay_set_tcpprep_cache e ctx file =
     (if source_cnt (options ctx) > 1 then
        (- 1, tcpreplay_seterr ctx ''tcpreplay_set_tcpprep_cache'' 596
                ''Unable to use tcpprep cache file with a single pcap file'')
      else
        (case read_cache e file of
           (data, n, cmt) \<Rightarrow>
             (0, ctx\<lparr>options := (options ctx)\<lparr>cachedata := Some data, comment := Some cmt,
                                              cache_packets := n\<rparr>\<rparr>)))"

definition tcpreplay_set_manual_callback ::
  "tcpreplay_t \<Rightarrow> tcpreplay_manual_callback \<Rightarrow> int \<times> tcpreplay_t" where
  "tcpreplay_set_manual_callback ctx callback =
     (if mode (speed_opt (options ctx)) \<noteq> speed_oneatatime then
        (- 1, tcpreplay_seterr ctx ''tcpreplay_set_manual_callback'' 675
                (''Unable to set manual callback because speed mode is not ''
                   @ [CHR 0x27] @ ''speed_oneatatime'' @ [CHR 0x27]))
      else
        (0, ctx\<lparr>options := (options ctx)\<lparr>speed_opt :=
                   (speed_opt (options ctx))\<lparr>manual_callback := Some callback\<rparr>\<rparr>\<rparr>))"

subsection \<open>Observers\<close>

text \<open>
  A getter copies from the live statistics into \<open>static_stats\<close> and returns what it
  copied (the time getters return a pointer into \<open>static_stats\<close>: the value returned here
  is what that pointer points to when the call returns).
\<close>

definition tcpreplay_get_pkts_sent :: "tcpreplay_t \<Rightarrow> COUNTER \<times> tcpreplay_t" where
  "tcpreplay_get_pkts_sent ctx =
     (let ctx = ctx\<lparr>static_stats := (static_stats ctx)\<lparr>pkts_sent := pkts_sent (stats ctx)\<rparr>\<rparr>
      in (pkts_sent (static_stats ctx), ctx))"

definition tcpreplay_get_bytes_sent :: "tcpreplay_t \<Rightarrow> COUNTER \<times> tcpreplay_t" where
  "tcpreplay_get_bytes_sent ctx =
     (let ctx = ctx\<lparr>static_stats := (static_stats ctx)\<lparr>bytes_sent := bytes_sent (stats ctx)\<rparr>\<rparr>
      in (bytes_sent (static_stats ctx), ctx))"

definition tcpreplay_get_failed :: "tcpreplay_t \<Rightarrow> COUNTER \<times> tcpreplay_t" where
  "tcpreplay_get_failed ctx =
     (let ctx = ctx\<lparr>static_stats := (static_stats ctx)\<lparr>failed := failed (stats ctx)\<rparr>\<rparr>
      in (failed (static_stats ctx), ctx))"

definition tcpreplay_get_start_time :: "tcpreplay_t \<Rightarrow> timeval \<times> tcpreplay_t" where
  \<comment> \<open>\<^verbatim>\<open>memcpy(&ctx->static_stats.start_time, &ctx->stats.end_time, ...)\<close>\<close>
  "tcpreplay_get_start_time ctx =
     (let ctx = ctx\<lparr>static_stats := (static_stats ctx)\<lparr>start_time := end_time (stats ctx)\<rparr>\<rparr>
      in (start_time (static_stats ctx), ctx))"

definition tcpreplay_get_end_time :: "tcpreplay_t \<Rightarrow> timeval \<times> tcpreplay_t" where
  "tcpreplay_get_end_time ctx =
     (let ctx = ctx\<lparr>static_stats := (static_stats ctx)\<lparr>end_time := end_time (stats ctx)\<rparr>\<rparr>
      in (end_time (static_stats ctx), ctx))"

definition tcpreplay_get_stats :: "tcpreplay_t \<Rightarrow> tcpreplay_stats_t \<times> tcpreplay_t" where
  "tcpreplay_get_stats ctx =
     (let ctx = ctx\<lparr>static_stats := stats ctx\<rparr> in (static_stats ctx, ctx))"

definition tcpreplay_get_source_count :: "tcpreplay_t \<Rightarrow> int" where
  "tcpreplay_get_source_count ctx = source_cnt (options ctx)"

definition tcpreplay_get_current_source :: "tcpreplay_t \<Rightarrow> int" where
  "tcpreplay_get_current_source ctx = current_source ctx"

definition tcpreplay_is_suspended :: "tcpreplay_t \<Rightarrow> bool" where
  "tcpreplay_is_suspended ctx = suspend ctx"

definition tcpreplay_is_running :: "tcpreplay_t \<Rightarrow> bool" where
  "tcpreplay_is_running ctx = running ctx"

subsection \<open>Control\<close>

definition tcpreplay_abort :: "externs \<Rightarrow> tcpreplay_t \<Rightarrow> int \<times> tcpreplay_t" where
  "tcpreplay_abort e ctx =
     (let ctx = ctx\<lparr>abort := True\<rparr>;
          ctx = (case intf1 ctx of
                   Some sp \<Rightarrow> ctx\<lparr>intf1 := Some (sendpacket_abort e sp)\<rparr>
                 | None \<Rightarrow> ctx);
          ctx = (case intf2 ctx of
                   Some sp \<Rightarrow> ctx\<lparr>intf2 := Some (sendpacket_abort e sp)\<rparr>
                 | None \<Rightarrow> ctx)
      in (0, ctx))"

definition tcpreplay_suspend :: "tcpreplay_t \<Rightarrow> int \<times> tcpreplay_t" where
  "tcpreplay_suspend ctx = (0, ctx\<lparr>suspend := True\<rparr>)"

definition tcpreplay_restart :: "tcpreplay_t \<Rightarrow> int \<times> tcpreplay_t" where
  "tcpreplay_restart ctx = (0, ctx\<lparr>suspend := False\<rparr>)"

subsection \<open>Replay\<close>

text \<open>
  The loop that \<^verbatim>\<open>tcpreplay_replay\<close> runs when file caching is enabled and \<open>file_cache\<close>
  is \<^verbatim>\<open>NULL\<close>: for \<open>i\<close> from 0 below \<open>source_cnt\<close> it resets entry \<open>i\<close>.
\<close>

function init_file_cache :: "tcpreplay_opt_t \<Rightarrow> int \<Rightarrow> fault + tcpreplay_opt_t" where
  "init_file_cache opts i =
     (if i < source_cnt opts then
        (case file_cache opts of
           None \<Rightarrow> Inl NullDeref
         | Some fc \<Rightarrow>
             init_file_cache
               (opts\<lparr>file_cache :=
                  Some (fc(i := (fc i)\<lparr>index := i, cached := False, packet_cache := []\<rparr>))\<rparr>)
               (i + 1))
      else Inr opts)"
  by pat_completeness auto
termination
  by (relation "measure (\<lambda>(opts, i). nat (source_cnt opts - i))") auto

text \<open>
  One pass over the sources: the \<^verbatim>\<open>for\<close> loop on \<open>current_source\<close>, which is the same in
  the limited and in the endless branch but for the line its error message names (\<open>line\<close>:
  848 in the first, 879 in the second). The result is \<open>Some rc\<close> with the context when
  the loop leaves \<^verbatim>\<open>tcpreplay_replay\<close> with \<^verbatim>\<open>return rc\<close>, and \<open>None\<close> with the context
  when it runs to its end. A driver may change any field of the context, the loop's own
  counter too, so the loop is partial.
\<close>

definition replay_source :: "externs \<Rightarrow> int \<Rightarrow> tcpreplay_t \<Rightarrow> int \<times> tcpreplay_t" where
  \<comment> \<open>The \<^verbatim>\<open>switch\<close> on the type of the current source.\<close>
  "replay_source e line ctx =
     (case type (sources (options ctx) (current_source ctx)) of
        source_filename \<Rightarrow> replay_file e ctx (current_source ctx)
      | source_fd \<Rightarrow> replay_fd e ctx (current_source ctx)
      | source_cache \<Rightarrow> replay_cache e ctx (current_source ctx)
      | source_invalid n \<Rightarrow>
          (- 1, tcpreplay_seterr ctx ''tcpreplay_replay'' line
                  (''Invalid source type: '' @ fmt_d n)))"

partial_function (option) replay_sources ::
  "externs \<Rightarrow> int \<Rightarrow> tcpreplay_t \<Rightarrow> (int option \<times> tcpreplay_t) option" where
  "replay_sources e line ctx =
     (if current_source ctx < source_cnt (options ctx) then
        (case replay_source e line (ctx\<lparr>cache_byte := 0, cache_bit := 0\<rparr>) of
           (rcode, ctx) \<Rightarrow>
             if rcode < 0 then Some (Some (- 1), ctx\<lparr>running := False\<rparr>)
             else replay_sources e line (ctx\<lparr>current_source := current_source ctx + 1\<rparr>))
      else Some (None, ctx))"

text \<open>
  \<^verbatim>\<open>while (ctx->options->loop--)\<close>: the counter is read, then decremented (a 32-bit
  unsigned value, so 0 becomes \<open>2^32 - 1\<close>), and the body runs when the value read was
  not 0.
\<close>

partial_function (option) replay_limited ::
  "externs \<Rightarrow> tcpreplay_t \<Rightarrow> (int option \<times> tcpreplay_t) option" where
  "replay_limited e ctx =
     (if loop (options ctx) \<noteq> 0 then
        Option.bind
          (replay_sources e 848
             (ctx\<lparr>options := (options ctx)\<lparr>loop := loop (options ctx) - 1\<rparr>,
                  current_source := 0\<rparr>))
          (\<lambda>(r, ctx). case r of Some rc \<Rightarrow> Some (Some rc, ctx) | None \<Rightarrow> replay_limited e ctx)
      else Some (None, ctx\<lparr>options := (options ctx)\<lparr>loop := loop (options ctx) - 1\<rparr>\<rparr>))"

text \<open>\<^verbatim>\<open>while (1)\<close>: only a failing driver leaves it.\<close>

partial_function (option) replay_forever ::
  "externs \<Rightarrow> tcpreplay_t \<Rightarrow> (int option \<times> tcpreplay_t) option" where
  "replay_forever e ctx =
     Option.bind (replay_sources e 879 (ctx\<lparr>current_source := 0\<rparr>))
       (\<lambda>(r, ctx). case r of Some rc \<Rightarrow> Some (Some rc, ctx) | None \<Rightarrow> replay_forever e ctx)"

definition tcpreplay_replay ::
  "externs \<Rightarrow> tcpreplay_t \<Rightarrow> int \<Rightarrow> (fault + int \<times> tcpreplay_t) option" where
  "tcpreplay_replay e ctx idx =
     (if idx < 0 \<or> idx > source_cnt (options ctx) then
        Some (Inr (- 1, tcpreplay_seterr ctx ''tcpreplay_replay'' 804
                          (''invalid source index value: '' @ fmt_d idx)))
      else
        (case (if enable_file_cache (options ctx) \<and> file_cache (options ctx) = None
               then init_file_cache (options ctx) 0 else Inr (options ctx)) of
           Inl f \<Rightarrow> Some (Inl f)
         | Inr opts \<Rightarrow>
             (case gettimeofday e of
                None \<Rightarrow>
                  Some (Inr (- 1, tcpreplay_seterr (ctx\<lparr>options := opts\<rparr>) ''tcpreplay_replay'' 821
                                    (''gettimeofday() failed: '' @ strerror_errno e)))
              | Some tv \<Rightarrow>
                  map_option
                    (\<lambda>(r, ctx). case r of
                        Some rc \<Rightarrow> Inr (rc, ctx)
                      | None \<Rightarrow> Inr (0, ctx\<lparr>running := False\<rparr>))
                    (let ctx = ctx\<lparr>options := opts,
                                   stats := (stats ctx)\<lparr>start_time := tv\<rparr>,
                                   running := True\<rparr>
                     in if loop (options ctx) > 0 then replay_limited e ctx
                        else replay_forever e ctx))))"

section \<open>What the theorems assume of the drivers\<close>

text \<open>
  The drivers are parameters, so a theorem about a whole replay says what it needs of
  them. \<open>driver_frame\<close>: a driver leaves \<open>current_source\<close> alone, and of the options it
  changes at most the contents of the file cache (which it may fill). \<open>driver_ok\<close>: a
  driver never reports an error. \<open>driver_keeps_abort\<close>: a driver does not write the abort
  flag. \<open>sources_valid\<close>: every source has one of the three known types.
\<close>

definition driver_frame :: "(tcpreplay_t \<Rightarrow> int \<Rightarrow> int \<times> tcpreplay_t) \<Rightarrow> bool" where
  "driver_frame d =
     (\<forall>c i. current_source (snd (d c i)) = current_source c
          \<and> options (snd (d c i)) = (options c)\<lparr>file_cache := file_cache (options (snd (d c i)))\<rparr>)"

definition drivers_frame :: "externs \<Rightarrow> bool" where
  "drivers_frame e =
     (driver_frame (replay_file e) \<and> driver_frame (replay_fd e) \<and> driver_frame (replay_cache e))"

definition driver_ok :: "(tcpreplay_t \<Rightarrow> int \<Rightarrow> int \<times> tcpreplay_t) \<Rightarrow> bool" where
  "driver_ok d = (\<forall>c i. 0 \<le> fst (d c i))"

definition drivers_ok :: "externs \<Rightarrow> bool" where
  "drivers_ok e = (driver_ok (replay_file e) \<and> driver_ok (replay_fd e) \<and> driver_ok (replay_cache e))"

definition driver_keeps_abort :: "(tcpreplay_t \<Rightarrow> int \<Rightarrow> int \<times> tcpreplay_t) \<Rightarrow> bool" where
  "driver_keeps_abort d = (\<forall>c i. abort (snd (d c i)) = abort c)"

definition drivers_keep_abort :: "externs \<Rightarrow> bool" where
  "drivers_keep_abort e =
     (driver_keeps_abort (replay_file e) \<and> driver_keeps_abort (replay_fd e)
      \<and> driver_keeps_abort (replay_cache e))"

definition sources_valid :: "tcpreplay_opt_t \<Rightarrow> bool" where
  "sources_valid opts = (\<forall>i n. type (sources opts i) \<noteq> source_invalid n)"

section \<open>Sequences of control and observer calls\<close>

text \<open>
  The calls another thread may make while a replay runs, and the context after one of
  them. The pure observers (\<^verbatim>\<open>is_suspended\<close>, \<^verbatim>\<open>is_running\<close>, \<^verbatim>\<open>get_source_count\<close>,
  \<^verbatim>\<open>get_current_source\<close>, \<^verbatim>\<open>geterr\<close>, \<^verbatim>\<open>getwarn\<close>) write nothing.
\<close>

datatype control_op =
  Abort | Suspend | Restart | IsSuspended | IsRunning | GetStats | GetPktsSent
  | GetBytesSent | GetFailed | GetStartTime | GetEndTime | GetSourceCount
  | GetCurrentSource | GetErr | GetWarn

fun control_step :: "externs \<Rightarrow> tcpreplay_t \<Rightarrow> control_op \<Rightarrow> tcpreplay_t" where
  "control_step e ctx Abort = snd (tcpreplay_abort e ctx)"
| "control_step e ctx Suspend = snd (tcpreplay_suspend ctx)"
| "control_step e ctx Restart = snd (tcpreplay_restart ctx)"
| "control_step e ctx GetStats = snd (tcpreplay_get_stats ctx)"
| "control_step e ctx GetPktsSent = snd (tcpreplay_get_pkts_sent ctx)"
| "control_step e ctx GetBytesSent = snd (tcpreplay_get_bytes_sent ctx)"
| "control_step e ctx GetFailed = snd (tcpreplay_get_failed ctx)"
| "control_step e ctx GetStartTime = snd (tcpreplay_get_start_time ctx)"
| "control_step e ctx GetEndTime = snd (tcpreplay_get_end_time ctx)"
| "control_step e ctx _ = ctx"

section \<open>Concrete contexts\<close>

text \<open>
  \<open>blank_ctx\<close> is zero-filled memory: every pointer \<^verbatim>\<open>NULL\<close>, every number 0, every flag
  false (no entry of \<open>sources\<close> is read before \<open>source_cnt\<close> counts it). \<open>test_externs\<close>
  hands it to \<^verbatim>\<open>tcpreplay_init\<close>, has a clock that works, and drivers that send one
  packet per source unless the abort flag is set. \<open>with_sources n\<close> is a context with \<open>n\<close>
  file sources, storage for the file cache and \<open>loop = 1\<close>.
\<close>

definition blank_ctx :: tcpreplay_t where
  "blank_ctx =
     \<lparr>options =
        \<lparr>intf1_name = None, intf2_name = None,
         speed_opt = \<lparr>mode = speed_multiplier, speed = 0, pps_multi = 0, manual_callback = None\<rparr>,
         loop = 0, sleep_accel = 0, use_pkthdr_len = False, cache_packets = 0,
         cachedata = None, comment = None, mtu = 0, accurate = accurate_gtod, limit_send = 0,
         enable_file_cache = False, file_cache = None, source_cnt = 0,
         sources = (\<lambda>i. \<lparr>type = source_filename, fd = 0, filename = None\<rparr>)\<rparr>,
      intf1 = None, intf2 = None, intlist = None, errstr = [], warnstr = [],
      stats = \<lparr>pkts_sent = 0, bytes_sent = 0, failed = 0,
                start_time = \<lparr>tv_sec = 0, tv_usec = 0\<rparr>,
                end_time = \<lparr>tv_sec = 0, tv_usec = 0\<rparr>\<rparr>,
      static_stats = \<lparr>pkts_sent = 0, bytes_sent = 0, failed = 0,
                       start_time = \<lparr>tv_sec = 0, tv_usec = 0\<rparr>,
                       end_time = \<lparr>tv_sec = 0, tv_usec = 0\<rparr>\<rparr>,
      running = False, abort = False, suspend = False,
      current_source = 0, cache_byte = 0, cache_bit = 0\<rparr>"

definition one_packet_driver :: "tcpreplay_t \<Rightarrow> int \<Rightarrow> int \<times> tcpreplay_t" where
  "one_packet_driver ctx idx =
     (0, if abort ctx then ctx
         else ctx\<lparr>stats := (stats ctx)\<lparr>pkts_sent := pkts_sent (stats ctx) + 1\<rparr>\<rparr>)"

definition test_externs :: externs where
  "test_externs =
     \<lparr>replay_file = one_packet_driver, replay_fd = one_packet_driver,
      replay_cache = one_packet_driver,
      gettimeofday = Some \<lparr>tv_sec = 100, tv_usec = 0\<rparr>, strerror_errno = [],
      read_cache = (\<lambda>file. ([0xB4], 8, ''prepared'')),
      sendpacket_abort = (\<lambda>sp. sp), safe_malloc_ctx = blank_ctx, fcntl_error = None,
      get_interface_list = None, HAVE_ABSOLUTE_TIME = False, DEFAULT_MTU = 1500\<rparr>"

definition with_sources :: "int \<Rightarrow> tcpreplay_t" where
  "with_sources n =
     blank_ctx\<lparr>options := (options blank_ctx)
       \<lparr>loop := 1, mtu := 1500,
        file_cache := Some (\<lambda>i. \<lparr>index = i, cached = False, packet_cache = []\<rparr>),
        source_cnt := n,
        sources := (\<lambda>i. \<lparr>type = source_filename, fd = 0, filename = Some ''a.pcap''\<rparr>)\<rparr>\<rparr>"

section \<open>Facts about the model\<close>

lemmas test_defs = with_sources_def blank_ctx_def test_externs_def one_packet_driver_def

lemma seterr_fields [simp]:
  "options (tcpreplay_seterr c f l m) = options c"
  "current_source (tcpreplay_seterr c f l m) = current_source c"
  "running (tcpreplay_seterr c f l m) = running c"
  "abort (tcpreplay_seterr c f l m) = abort c"
  "suspend (tcpreplay_seterr c f l m) = suspend c"
  "stats (tcpreplay_seterr c f l m) = stats c"
  "static_stats (tcpreplay_seterr c f l m) = static_stats c"
  by (simp_all add: tcpreplay_seterr_def tcpreplay_seterr_at_def)

lemma u32_minus_one:
  "(- 1 :: u_int32_t) = 0xFFFFFFFF" "unat (- 1 :: u_int32_t) = 2 ^ 32 - 1"
  by (simp_all add: unsigned_minus_1_eq_mask mask_eq_exp_minus_1)

lemma fmt_d_minus_one: "fmt_d (- 1) = ''-1''"
  by code_simp

lemma init_file_cache_none:
  "file_cache opts = None \<Longrightarrow>
   init_file_cache opts i = (if i < source_cnt opts then Inl NullDeref else Inr opts)"
  by (subst init_file_cache.simps) simp

subsection \<open>One source\<close>

lemma replay_source_frame:
  assumes "drivers_frame e"
  shows "current_source (snd (replay_source e lno c)) = current_source c"
    and "\<exists>fc. options (snd (replay_source e lno c)) = (options c)\<lparr>file_cache := fc\<rparr>"
proof -
  show "current_source (snd (replay_source e lno c)) = current_source c"
    using assms
    by (auto simp: replay_source_def drivers_frame_def driver_frame_def
             split: tcpreplay_source_type.splits)
  have d: "\<exists>fc. options (snd (d c i)) = (options c)\<lparr>file_cache := fc\<rparr>"
    if "driver_frame d" for d i
    using that unfolding driver_frame_def by blast
  have s: "\<exists>fc. options (tcpreplay_seterr c f l m) = (options c)\<lparr>file_cache := fc\<rparr>" for f l m
    by (rule exI [of _ "file_cache (options c)"]) simp
  show "\<exists>fc. options (snd (replay_source e lno c)) = (options c)\<lparr>file_cache := fc\<rparr>"
    using assms d s
    by (auto simp: replay_source_def drivers_frame_def split: tcpreplay_source_type.splits)
qed

lemma replay_source_ok:
  "drivers_ok e \<Longrightarrow> sources_valid (options c) \<Longrightarrow> 0 \<le> fst (replay_source e lno c)"
  by (auto simp: replay_source_def drivers_ok_def driver_ok_def sources_valid_def
           split: tcpreplay_source_type.splits)

lemma replay_source_abort:
  "drivers_keep_abort e \<Longrightarrow> abort (snd (replay_source e lno c)) = abort c"
  by (auto simp: replay_source_def drivers_keep_abort_def driver_keeps_abort_def
           split: tcpreplay_source_type.splits)

subsection \<open>The loops return when the drivers keep to their frame\<close>

lemma replay_sources_returns_aux:
  assumes fr: "drivers_frame e"
  shows "nat (source_cnt (options c) - current_source c) = k \<Longrightarrow>
         \<exists>r c' fc. replay_sources e lno c = Some (r, c')
                \<and> options c' = (options c)\<lparr>file_cache := fc\<rparr>
                \<and> (drivers_ok e \<and> sources_valid (options c) \<longrightarrow> r = None)"
proof (induction k arbitrary: c)
  case 0
  then have "\<not> current_source c < source_cnt (options c)" by simp
  then have "replay_sources e lno c = Some (None, c)" by (subst replay_sources.simps) simp
  moreover have "options c = (options c)\<lparr>file_cache := file_cache (options c)\<rparr>" by simp
  ultimately show ?case by blast
next
  case (Suc k)
  then have lt: "current_source c < source_cnt (options c)" by simp
  let ?c0 = "c\<lparr>cache_byte := 0, cache_bit := 0\<rparr>"
  obtain rcode c1 where rs: "replay_source e lno ?c0 = (rcode, c1)" by (cases "replay_source e lno ?c0")
  from replay_source_frame [OF fr, of lno ?c0] rs obtain fc1 where
    cs1: "current_source c1 = current_source c"
    and o1: "options c1 = (options c)\<lparr>file_cache := fc1\<rparr>" by auto
  have ok: "drivers_ok e \<and> sources_valid (options c) \<longrightarrow> 0 \<le> rcode"
    using replay_source_ok [where e = e and lno = lno and c = ?c0] rs by simp
  show ?case
  proof (cases "rcode < 0")
    case True
    then have "replay_sources e lno c = Some (Some (- 1), c1\<lparr>running := False\<rparr>)"
      using lt rs by (subst replay_sources.simps) simp
    with o1 ok True show ?thesis by auto
  next
    case False
    let ?c2 = "c1\<lparr>current_source := current_source c1 + 1\<rparr>"
    have "nat (source_cnt (options ?c2) - current_source ?c2) = k"
      using Suc.prems o1 cs1 by simp
    from Suc.IH [OF this] obtain r c' fc where
      run: "replay_sources e lno ?c2 = Some (r, c')"
      and o': "options c' = (options ?c2)\<lparr>file_cache := fc\<rparr>"
      and r: "drivers_ok e \<and> sources_valid (options ?c2) \<longrightarrow> r = None"
      by blast
    have "replay_sources e lno c = Some (r, c')"
      using lt rs False run by (subst replay_sources.simps) simp
    moreover have "options c' = (options c)\<lparr>file_cache := fc\<rparr>" using o' o1 by simp
    moreover have "sources_valid (options ?c2) = sources_valid (options c)"
      using o1 by (simp add: sources_valid_def)
    ultimately show ?thesis using r by blast
  qed
qed

lemma replay_sources_returns:
  "drivers_frame e \<Longrightarrow>
   \<exists>r c' fc. replay_sources e lno c = Some (r, c')
          \<and> options c' = (options c)\<lparr>file_cache := fc\<rparr>
          \<and> (drivers_ok e \<and> sources_valid (options c) \<longrightarrow> r = None)"
  using replay_sources_returns_aux by blast

lemma replay_limited_returns_aux:
  assumes fr: "drivers_frame e"
  shows "unat (loop (options c)) = k \<Longrightarrow>
         \<exists>r c' fc. replay_limited e c = Some (r, c') \<and>
                 (r = None \<longrightarrow> options c' = (options c)\<lparr>loop := - 1, file_cache := fc\<rparr>) \<and>
                 (drivers_ok e \<and> sources_valid (options c) \<longrightarrow> r = None)"
proof (induction k arbitrary: c rule: less_induct)
  case (less k)
  show ?case
  proof (cases "loop (options c) = 0")
    case True
    then have "replay_limited e c = Some (None, c\<lparr>options := (options c)\<lparr>loop := - 1\<rparr>\<rparr>)"
      by (subst replay_limited.simps) simp
    moreover have "options (c\<lparr>options := (options c)\<lparr>loop := - 1\<rparr>\<rparr>)
                     = (options c)\<lparr>loop := - 1, file_cache := file_cache (options c)\<rparr>"
      by simp
    ultimately show ?thesis by blast
  next
    case False
    let ?c0 = "c\<lparr>options := (options c)\<lparr>loop := loop (options c) - 1\<rparr>, current_source := 0\<rparr>"
    from replay_sources_returns [OF fr, of 848 ?c0] obtain r c1 fc1 where
      rs: "replay_sources e 848 ?c0 = Some (r, c1)"
      and o1: "options c1 = (options ?c0)\<lparr>file_cache := fc1\<rparr>"
      and r: "drivers_ok e \<and> sources_valid (options ?c0) \<longrightarrow> r = None" by blast
    have sv: "sources_valid (options ?c0) = sources_valid (options c)"
      by (simp add: sources_valid_def)
    show ?thesis
    proof (cases r)
      case (Some rc)
      then have "replay_limited e c = Some (Some rc, c1)"
        using False rs by (subst replay_limited.simps) simp
      with Some r sv show ?thesis by auto
    next
      case None
      have "0 < unat (loop (options c))" using False by (simp add: unat_gt_0)
      then have "unat (loop (options c1)) < k"
        using o1 False less.prems by (simp add: unat_minus_one)
      from less.IH [OF this refl] obtain r' c' fc where
        rl: "replay_limited e c1 = Some (r', c')"
        and r': "r' = None \<longrightarrow> options c' = (options c1)\<lparr>loop := - 1, file_cache := fc\<rparr>"
        and r'': "drivers_ok e \<and> sources_valid (options c1) \<longrightarrow> r' = None" by blast
      have sv1: "sources_valid (options c1) = sources_valid (options c)"
        using o1 by (simp add: sources_valid_def)
      have "replay_limited e c = Some (r', c')"
        using False rs None rl by (subst replay_limited.simps) simp
      moreover have "r' = None \<longrightarrow> options c' = (options c)\<lparr>loop := - 1, file_cache := fc\<rparr>"
        using r' o1 by simp
      ultimately show ?thesis using r'' sv1 by blast
    qed
  qed
qed

lemma replay_limited_returns:
  "drivers_frame e \<Longrightarrow>
   \<exists>r c' fc. replay_limited e c = Some (r, c') \<and>
           (r = None \<longrightarrow> options c' = (options c)\<lparr>loop := - 1, file_cache := fc\<rparr>) \<and>
           (drivers_ok e \<and> sources_valid (options c) \<longrightarrow> r = None)"
  using replay_limited_returns_aux by blast

subsection \<open>What a loop has done when it returns\<close>

lemma replay_sources_early:
  assumes "replay_sources e lno c = Some (Some rc, c')"
  shows "rc = - 1 \<and> \<not> running c'"
proof -
  have "\<forall>rc c'. y = (Some rc, c') \<longrightarrow> rc = - 1 \<and> \<not> running c'"
    if "replay_sources e lno c = Some y" for y
  proof (rule replay_sources.raw_induct
      [where P = "\<lambda>e lno c y. \<forall>rc c'. y = (Some rc, c') \<longrightarrow> rc = - 1 \<and> \<not> running c'", OF _ that])
    fix f e lno c y
    assume "\<And>e lno c y. f e lno c = Some y \<Longrightarrow>
              \<forall>rc c'. y = (Some rc, c') \<longrightarrow> rc = - 1 \<and> \<not> running c'"
      and "(if current_source c < source_cnt (options c)
            then case replay_source e lno (c\<lparr>cache_byte := 0, cache_bit := 0\<rparr>) of
                   (rcode, ctx) \<Rightarrow>
                     if rcode < 0 then Some (Some (- 1), ctx\<lparr>running := False\<rparr>)
                     else f e lno (ctx\<lparr>current_source := current_source ctx + 1\<rparr>)
            else Some (None, c)) = Some y"
    then show "\<forall>rc c'. y = (Some rc, c') \<longrightarrow> rc = - 1 \<and> \<not> running c'"
      by (auto split: if_splits prod.splits)
  qed
  with assms show ?thesis by blast
qed

lemma replay_limited_early:
  assumes "replay_limited e c = Some (Some rc, c')"
  shows "rc = - 1 \<and> \<not> running c'"
proof -
  have "\<forall>rc c'. y = (Some rc, c') \<longrightarrow> rc = - 1 \<and> \<not> running c'"
    if "replay_limited e c = Some y" for y
  proof (rule replay_limited.raw_induct
      [where P = "\<lambda>e c y. \<forall>rc c'. y = (Some rc, c') \<longrightarrow> rc = - 1 \<and> \<not> running c'", OF _ that])
    fix f e c y
    assume "\<And>e c y. f e c = Some y \<Longrightarrow> \<forall>rc c'. y = (Some rc, c') \<longrightarrow> rc = - 1 \<and> \<not> running c'"
      and "(if loop (options c) \<noteq> 0
            then Option.bind
                   (replay_sources e 848
                      (c\<lparr>options := (options c)\<lparr>loop := loop (options c) - 1\<rparr>,
                         current_source := 0\<rparr>))
                   (\<lambda>(r, ctx). case r of Some rc \<Rightarrow> Some (Some rc, ctx) | None \<Rightarrow> f e ctx)
            else Some (None, c\<lparr>options := (options c)\<lparr>loop := loop (options c) - 1\<rparr>\<rparr>)) = Some y"
    then show "\<forall>rc c'. y = (Some rc, c') \<longrightarrow> rc = - 1 \<and> \<not> running c'"
      by (auto split: if_splits prod.splits option.splits simp: bind_eq_Some_conv
               dest: replay_sources_early)
  qed
  with assms show ?thesis by blast
qed

lemma replay_forever_early:
  assumes "replay_forever e c = Some (Some rc, c')"
  shows "rc = - 1 \<and> \<not> running c'"
proof -
  have "\<forall>rc c'. y = (Some rc, c') \<longrightarrow> rc = - 1 \<and> \<not> running c'"
    if "replay_forever e c = Some y" for y
  proof (rule replay_forever.raw_induct
      [where P = "\<lambda>e c y. \<forall>rc c'. y = (Some rc, c') \<longrightarrow> rc = - 1 \<and> \<not> running c'", OF _ that])
    fix f e c y
    assume "\<And>e c y. f e c = Some y \<Longrightarrow> \<forall>rc c'. y = (Some rc, c') \<longrightarrow> rc = - 1 \<and> \<not> running c'"
      and "Option.bind (replay_sources e 879 (c\<lparr>current_source := 0\<rparr>))
             (\<lambda>(r, ctx). case r of Some rc \<Rightarrow> Some (Some rc, ctx) | None \<Rightarrow> f e ctx) = Some y"
    then show "\<forall>rc c'. y = (Some rc, c') \<longrightarrow> rc = - 1 \<and> \<not> running c'"
      by (auto split: if_splits prod.splits option.splits simp: bind_eq_Some_conv
               dest: replay_sources_early)
  qed
  with assms show ?thesis by blast
qed

lemma replay_sources_abort:
  assumes ka: "drivers_keep_abort e" and run: "replay_sources e lno c = Some y"
  shows "abort (snd y) = abort c"
proof -
  have "drivers_keep_abort e \<longrightarrow> abort (snd y) = abort c"
  proof (rule replay_sources.raw_induct
      [where P = "\<lambda>e lno c y. drivers_keep_abort e \<longrightarrow> abort (snd y) = abort c", OF _ run])
    fix f e lno c y
    assume IH: "\<And>e lno c y. f e lno c = Some y \<Longrightarrow>
                  drivers_keep_abort e \<longrightarrow> abort (snd y) = abort c"
      and body: "(if current_source c < source_cnt (options c)
            then case replay_source e lno (c\<lparr>cache_byte := 0, cache_bit := 0\<rparr>) of
                   (rcode, ctx) \<Rightarrow>
                     if rcode < 0 then Some (Some (- 1), ctx\<lparr>running := False\<rparr>)
                     else f e lno (ctx\<lparr>current_source := current_source ctx + 1\<rparr>)
            else Some (None, c)) = Some y"
    show "drivers_keep_abort e \<longrightarrow> abort (snd y) = abort c"
    proof
      assume k: "drivers_keep_abort e"
      let ?c0 = "c\<lparr>cache_byte := 0, cache_bit := 0\<rparr>"
      obtain rcode c1 where rs: "replay_source e lno ?c0 = (rcode, c1)"
        by (cases "replay_source e lno ?c0")
      have a1: "abort c1 = abort c" using replay_source_abort [OF k, of lno ?c0] rs by simp
      show "abort (snd y) = abort c"
      proof (cases "current_source c < source_cnt (options c)")
        case False
        with body show ?thesis by auto
      next
        case True
        show ?thesis
        proof (cases "rcode < 0")
          case True
          with \<open>current_source c < source_cnt (options c)\<close> rs body a1 show ?thesis by auto
        next
          case False
          with True rs body have "f e lno (c1\<lparr>current_source := current_source c1 + 1\<rparr>) = Some y"
            by simp
          from IH [OF this] k a1 show ?thesis by simp
        qed
      qed
    qed
  qed
  with ka show ?thesis by blast
qed

lemma replay_limited_abort:
  assumes ka: "drivers_keep_abort e" and run: "replay_limited e c = Some y"
  shows "abort (snd y) = abort c"
proof -
  have "drivers_keep_abort e \<longrightarrow> abort (snd y) = abort c"
  proof (rule replay_limited.raw_induct
      [where P = "\<lambda>e c y. drivers_keep_abort e \<longrightarrow> abort (snd y) = abort c", OF _ run])
    fix f e c y
    assume IH: "\<And>e c y. f e c = Some y \<Longrightarrow> drivers_keep_abort e \<longrightarrow> abort (snd y) = abort c"
      and body: "(if loop (options c) \<noteq> 0
            then Option.bind
                   (replay_sources e 848
                      (c\<lparr>options := (options c)\<lparr>loop := loop (options c) - 1\<rparr>,
                         current_source := 0\<rparr>))
                   (\<lambda>(r, ctx). case r of Some rc \<Rightarrow> Some (Some rc, ctx) | None \<Rightarrow> f e ctx)
            else Some (None, c\<lparr>options := (options c)\<lparr>loop := loop (options c) - 1\<rparr>\<rparr>)) = Some y"
    show "drivers_keep_abort e \<longrightarrow> abort (snd y) = abort c"
    proof
      assume k: "drivers_keep_abort e"
      show "abort (snd y) = abort c"
      proof (cases "loop (options c) = 0")
        case True
        with body show ?thesis by auto
      next
        case False
        let ?c0 = "c\<lparr>options := (options c)\<lparr>loop := loop (options c) - 1\<rparr>, current_source := 0\<rparr>"
        from False body obtain r c1 where
          rs: "replay_sources e 848 ?c0 = Some (r, c1)"
          and rest: "(case r of Some rc \<Rightarrow> Some (Some rc, c1) | None \<Rightarrow> f e c1) = Some y"
          by (auto simp: bind_eq_Some_conv)
        have a1: "abort c1 = abort c" using replay_sources_abort [OF k rs] by simp
        show ?thesis
        proof (cases r)
          case None
          with rest have "f e c1 = Some y" by simp
          from IH [OF this] k a1 show ?thesis by simp
        next
          case (Some rc)
          with rest a1 show ?thesis by auto
        qed
      qed
    qed
  qed
  with ka show ?thesis by blast
qed

lemma replay_forever_abort:
  assumes ka: "drivers_keep_abort e" and run: "replay_forever e c = Some y"
  shows "abort (snd y) = abort c"
proof -
  have "drivers_keep_abort e \<longrightarrow> abort (snd y) = abort c"
  proof (rule replay_forever.raw_induct
      [where P = "\<lambda>e c y. drivers_keep_abort e \<longrightarrow> abort (snd y) = abort c", OF _ run])
    fix f e c y
    assume IH: "\<And>e c y. f e c = Some y \<Longrightarrow> drivers_keep_abort e \<longrightarrow> abort (snd y) = abort c"
      and body: "Option.bind (replay_sources e 879 (c\<lparr>current_source := 0\<rparr>))
             (\<lambda>(r, ctx). case r of Some rc \<Rightarrow> Some (Some rc, ctx) | None \<Rightarrow> f e ctx) = Some y"
    show "drivers_keep_abort e \<longrightarrow> abort (snd y) = abort c"
    proof
      assume k: "drivers_keep_abort e"
      from body obtain r c1 where
        rs: "replay_sources e 879 (c\<lparr>current_source := 0\<rparr>) = Some (r, c1)"
        and rest: "(case r of Some rc \<Rightarrow> Some (Some rc, c1) | None \<Rightarrow> f e c1) = Some y"
        by (auto simp: bind_eq_Some_conv)
      have a1: "abort c1 = abort c" using replay_sources_abort [OF k rs] by simp
      show "abort (snd y) = abort c"
      proof (cases r)
        case None
        with rest have "f e c1 = Some y" by simp
        from IH [OF this] k a1 show ?thesis by simp
      next
        case (Some rc)
        with rest a1 show ?thesis by auto
      qed
    qed
  qed
  with ka show ?thesis by blast
qed

subsection \<open>The whole call\<close>

lemma tcpreplay_replay_abort:
  assumes "drivers_keep_abort e" and "tcpreplay_replay e ctx idx = Some (Inr (rc, ctx'))"
  shows "abort ctx' = abort ctx"
  using assms(2) replay_limited_abort [OF assms(1)] replay_forever_abort [OF assms(1)]
  unfolding tcpreplay_replay_def
  by (fastforce split: if_splits sum.splits option.splits prod.splits simp: Let_def)

lemma tcpreplay_replay_completes:
  assumes fr: "drivers_frame e" and ok: "drivers_ok e" and sv: "sources_valid (options ctx)"
    and idx: "0 \<le> idx" "idx \<le> source_cnt (options ctx)"
    and clock: "gettimeofday e = Some tv"
    and l: "loop (options ctx) \<noteq> 0"
    and fc: "\<not> (enable_file_cache (options ctx) \<and> file_cache (options ctx) = None
              \<and> 0 < source_cnt (options ctx))"
  shows "\<exists>ctx' fc. tcpreplay_replay e ctx idx = Some (Inr (0, ctx'))
           \<and> options ctx' = (options ctx)\<lparr>loop := - 1, file_cache := fc\<rparr> \<and> \<not> running ctx'"
proof -
  let ?c2 = "ctx\<lparr>options := options ctx, stats := (stats ctx)\<lparr>start_time := tv\<rparr>, running := True\<rparr>"
  have pre: "(if enable_file_cache (options ctx) \<and> file_cache (options ctx) = None
              then init_file_cache (options ctx) 0 else Inr (options ctx)) = Inr (options ctx)"
    using fc by (auto simp: init_file_cache_none)
  have "sources_valid (options ?c2)" using sv by simp
  with replay_limited_returns [OF fr, of ?c2] ok obtain c' fc where
    rl: "replay_limited e ?c2 = Some (None, c')"
    and o: "options c' = (options ?c2)\<lparr>loop := - 1, file_cache := fc\<rparr>"
    by blast
  have "0 < loop (options ctx)" using l by (simp add: word_greater_zero_iff)
  then have "tcpreplay_replay e ctx idx = Some (Inr (0, c'\<lparr>running := False\<rparr>))"
    using idx clock pre rl by (simp add: tcpreplay_replay_def)
  moreover have "options (c'\<lparr>running := False\<rparr>) = (options ctx)\<lparr>loop := - 1, file_cache := fc\<rparr>"
    using o by simp
  ultimately show ?thesis by force
qed

lemma tcpreplay_replay_limited:
  assumes fr: "drivers_frame e" and l: "loop (options ctx) \<noteq> 0"
  shows "\<exists>res. tcpreplay_replay e ctx idx = Some res"
    and "\<forall>ctx'. tcpreplay_replay e ctx idx = Some (Inr (0, ctx')) \<longrightarrow>
           (\<exists>fc. options ctx' = (options ctx)\<lparr>loop := - 1, file_cache := fc\<rparr>)"
proof -
  have "(\<exists>res. tcpreplay_replay e ctx idx = Some res)
       \<and> (\<forall>ctx'. tcpreplay_replay e ctx idx = Some (Inr (0, ctx')) \<longrightarrow>
             (\<exists>fc. options ctx' = (options ctx)\<lparr>loop := - 1, file_cache := fc\<rparr>))"
  proof (cases "idx < 0 \<or> idx > source_cnt (options ctx)")
    case True
    then show ?thesis by (auto simp: tcpreplay_replay_def)
  next
    case valid: False
    show ?thesis
    proof (cases "enable_file_cache (options ctx) \<and> file_cache (options ctx) = None
                  \<and> 0 < source_cnt (options ctx)")
      case True
      then show ?thesis using valid by (simp add: tcpreplay_replay_def init_file_cache_none)
    next
      case False
      then have pre: "(if enable_file_cache (options ctx) \<and> file_cache (options ctx) = None
                then init_file_cache (options ctx) 0 else Inr (options ctx)) = Inr (options ctx)"
        by (auto simp: init_file_cache_none)
      show ?thesis
      proof (cases "gettimeofday e")
        case None
        then show ?thesis using valid pre by (simp add: tcpreplay_replay_def)
      next
        case (Some tv)
        let ?c2 = "ctx\<lparr>options := options ctx, stats := (stats ctx)\<lparr>start_time := tv\<rparr>,
                       running := True\<rparr>"
        from replay_limited_returns [OF fr, of ?c2] obtain r c' fc where
          rl: "replay_limited e ?c2 = Some (r, c')"
          and o: "r = None \<longrightarrow> options c' = (options ?c2)\<lparr>loop := - 1, file_cache := fc\<rparr>"
          by blast
        have pos: "0 < loop (options ctx)" using l by (simp add: word_greater_zero_iff)
        show ?thesis
        proof (cases r)
          case None
          then have "tcpreplay_replay e ctx idx = Some (Inr (0, c'\<lparr>running := False\<rparr>))"
            using valid pre Some rl pos by (simp add: tcpreplay_replay_def)
          moreover have "options (c'\<lparr>running := False\<rparr>)
                           = (options ctx)\<lparr>loop := - 1, file_cache := fc\<rparr>"
            using o None by simp
          ultimately show ?thesis by force
        next
          case (Some rc)
          with rl have "rc = - 1" by (auto dest: replay_limited_early)
          with Some have "tcpreplay_replay e ctx idx = Some (Inr (- 1, c'))"
            using valid pre \<open>gettimeofday e = Some tv\<close> rl pos
            by (simp add: tcpreplay_replay_def)
          then show ?thesis by simp
        qed
      qed
    qed
  qed
  then show "\<exists>res. tcpreplay_replay e ctx idx = Some res"
    and "\<forall>ctx'. tcpreplay_replay e ctx idx = Some (Inr (0, ctx')) \<longrightarrow>
           (\<exists>fc. options ctx' = (options ctx)\<lparr>loop := - 1, file_cache := fc\<rparr>)"
    by blast+
qed

lemma tcpreplay_replay_returns:
  "drivers_frame e \<Longrightarrow> loop (options ctx) \<noteq> 0 \<Longrightarrow> \<exists>res. tcpreplay_replay e ctx idx = Some res"
  by (rule tcpreplay_replay_limited)

lemma tcpreplay_replay_frame:
  assumes "drivers_frame e" and "loop (options ctx) \<noteq> 0"
    and "tcpreplay_replay e ctx idx = Some (Inr (0, ctx'))"
  shows "options ctx' = (options ctx)\<lparr>loop := - 1, file_cache := file_cache (options ctx')\<rparr>"
proof -
  from tcpreplay_replay_limited(2) [OF assms(1,2), of idx] assms(3) obtain fc where
    "options ctx' = (options ctx)\<lparr>loop := - 1, file_cache := fc\<rparr>" by blast
  then show ?thesis by simp
qed

subsection \<open>The concrete drivers and contexts\<close>

lemma test_externs_frame: "drivers_frame test_externs"
  by (simp add: drivers_frame_def driver_frame_def test_externs_def one_packet_driver_def)

lemma test_externs_ok: "drivers_ok test_externs"
  by (simp add: drivers_ok_def driver_ok_def test_externs_def one_packet_driver_def)

lemma test_externs_keep_abort: "drivers_keep_abort test_externs"
  by (simp add: drivers_keep_abort_def driver_keeps_abort_def test_externs_def one_packet_driver_def)

lemma with_sources_run:
  "\<exists>ctx'. tcpreplay_replay test_externs (with_sources 2) 0 = Some (Inr (0, ctx'))"
proof -
  have "sources_valid (options (with_sources 2))"
    by (simp add: sources_valid_def with_sources_def)
  from tcpreplay_replay_completes [OF test_externs_frame test_externs_ok this, of 0 "\<lparr>tv_sec = 100, tv_usec = 0\<rparr>"]
  show ?thesis by (auto simp: with_sources_def test_externs_def)
qed

lemma control_step_abort: "abort ctx \<Longrightarrow> abort (control_step e ctx op)"
  by (cases op)
     (simp_all add: tcpreplay_abort_def tcpreplay_suspend_def tcpreplay_restart_def
        tcpreplay_get_stats_def tcpreplay_get_pkts_sent_def tcpreplay_get_bytes_sent_def
        tcpreplay_get_failed_def tcpreplay_get_start_time_def tcpreplay_get_end_time_def
        Let_def split: option.splits)

lemma control_steps_abort: "abort ctx \<Longrightarrow> abort (foldl (control_step e) ctx ops)"
  by (induction ops arbitrary: ctx) (simp_all add: control_step_abort)

section \<open>The claims\<close>

text \<open>
  C1. The comment on \<^verbatim>\<open>tcpreplay_replay\<close> says: pass the index of the pcap to replay, or
  -1 for all pcaps. The code rejects every negative index, -1 included: the call returns
  -1 with the error string set and replays nothing. An index from 0 to \<open>source_cnt\<close>
  (\<open>source_cnt\<close> itself included) passes the check and is not looked at again: on a
  context with two sources both index 0 and index 2 replay the two sources.
\<close>

theorem replay_rejects_minus_one:
  "tcpreplay_replay e ctx (- 1) =
     Some (Inr (- 1, tcpreplay_seterr ctx ''tcpreplay_replay'' 804
                       ''invalid source index value: -1''))
   \<and> (case tcpreplay_replay test_externs (with_sources 2) 0 of
         Some (Inr (rc, c)) \<Rightarrow> rc = 0 \<and> pkts_sent (stats c) = 2
       | _ \<Rightarrow> False)
   \<and> (case tcpreplay_replay test_externs (with_sources 2) 2 of
         Some (Inr (rc, c)) \<Rightarrow> rc = 0 \<and> pkts_sent (stats c) = 2
       | _ \<Rightarrow> False)"
proof (intro conjI)
  show "tcpreplay_replay e ctx (- 1) =
     Some (Inr (- 1, tcpreplay_seterr ctx ''tcpreplay_replay'' 804
                       ''invalid source index value: -1''))"
    by (simp add: tcpreplay_replay_def fmt_d_minus_one)
  show "case tcpreplay_replay test_externs (with_sources 2) 0 of
         Some (Inr (rc, c)) \<Rightarrow> rc = 0 \<and> pkts_sent (stats c) = 2
       | _ \<Rightarrow> False"
    by (simp add: tcpreplay_replay_def test_defs
        replay_limited.simps replay_sources.simps replay_source_def)
  show "case tcpreplay_replay test_externs (with_sources 2) 2 of
         Some (Inr (rc, c)) \<Rightarrow> rc = 0 \<and> pkts_sent (stats c) = 2
       | _ \<Rightarrow> False"
    by (simp add: tcpreplay_replay_def test_defs
        replay_limited.simps replay_sources.simps replay_source_def)
qed

text \<open>
  C2, as amended. \<^verbatim>\<open>tcpreplay_replay\<close> never reads the running flag. Called on a context
  whose flag is true, it rejects an index outside 0 .. \<open>source_cnt\<close> as always, and for
  any other index, once the clock has been read, it does exactly what it does on the same
  context with the flag false: same return value, same final context.
\<close>

theorem replay_ignores_running:
  assumes "running ctx"
  shows "(idx < 0 \<or> source_cnt (options ctx) < idx \<longrightarrow>
            tcpreplay_replay e ctx idx =
              Some (Inr (- 1, tcpreplay_seterr ctx ''tcpreplay_replay'' 804
                                (''invalid source index value: '' @ fmt_d idx))))
       \<and> (0 \<le> idx \<and> idx \<le> source_cnt (options ctx) \<and> gettimeofday e \<noteq> None \<longrightarrow>
            tcpreplay_replay e ctx idx = tcpreplay_replay e (ctx\<lparr>running := False\<rparr>) idx)"
  by (auto simp: tcpreplay_replay_def split: sum.splits option.splits)

text \<open>
  C2 as stated fails: with the flag true, two sources and \<open>loop = 1\<close> the call returns 0,
  not -1; it has sent both sources, set the start time, used up the loop counter and
  cleared the flag. On the context \<^verbatim>\<open>tcpreplay_init\<close> makes, with the flag set and no
  source, it returns 0 as well, with the start time set, the counter used up and the flag
  cleared.
\<close>

theorem replay_while_running_counterexample:
  "(case tcpreplay_replay test_externs ((with_sources 2)\<lparr>running := True\<rparr>) 0 of
      Some (Inr (rc, c)) \<Rightarrow>
        rc = 0 \<and> pkts_sent (stats c) = 2 \<and> start_time (stats c) = \<lparr>tv_sec = 100, tv_usec = 0\<rparr>
        \<and> loop (options c) = 0xFFFFFFFF \<and> \<not> running c
    | _ \<Rightarrow> False)
   \<and> (case tcpreplay_replay test_externs ((tcpreplay_init test_externs)\<lparr>running := True\<rparr>) 0 of
      Some (Inr (rc, c)) \<Rightarrow>
        rc = 0 \<and> start_time (stats c) = \<lparr>tv_sec = 100, tv_usec = 0\<rparr>
        \<and> loop (options c) = 0xFFFFFFFF \<and> \<not> running c
    | _ \<Rightarrow> False)"
  by (simp add: tcpreplay_replay_def tcpreplay_init_def test_defs
        replay_limited.simps replay_sources.simps replay_source_def)

text \<open>
  The theorem of C2 at a context with two sources and the flag set: index 0 runs the
  replay of the context with the flag clear, index 3 is rejected.
\<close>

theorem replay_ignores_running_witness:
  "running ((with_sources 2)\<lparr>running := True\<rparr>)
   \<and> tcpreplay_replay test_externs ((with_sources 2)\<lparr>running := True\<rparr>) 0
       = tcpreplay_replay test_externs (with_sources 2) 0
   \<and> tcpreplay_replay test_externs ((with_sources 2)\<lparr>running := True\<rparr>) 3
       = Some (Inr (- 1, tcpreplay_seterr ((with_sources 2)\<lparr>running := True\<rparr>)
                           ''tcpreplay_replay'' 804 ''invalid source index value: 3''))"
proof -
  have "(with_sources 2)\<lparr>running := True, running := False\<rparr> = with_sources 2"
    by (simp add: with_sources_def blank_ctx_def)
  moreover have "gettimeofday test_externs \<noteq> None"
    "source_cnt (options ((with_sources 2)\<lparr>running := True\<rparr>)) = 2"
    by (simp_all add: test_externs_def with_sources_def)
  moreover have "fmt_d 3 = ''3''" by code_simp
  ultimately show ?thesis
    using replay_ignores_running [of "(with_sources 2)\<lparr>running := True\<rparr>" 0 test_externs]
      replay_ignores_running [of "(with_sources 2)\<lparr>running := True\<rparr>" 3 test_externs]
    by simp
qed

text \<open>
  C3. If the running flag is false when \<^verbatim>\<open>tcpreplay_replay\<close> is called, it is false
  whenever the call returns: after an invalid index or a clock failure (the flag is not
  touched), after a driver error and after normal completion (the flag is cleared).
\<close>

theorem replay_leaves_running_false:
  assumes "\<not> running ctx" and "tcpreplay_replay e ctx idx = Some (Inr (rc, ctx'))"
  shows "\<not> running ctx'"
  using assms unfolding tcpreplay_replay_def
  by (auto split: if_splits sum.splits option.splits prod.splits simp: Let_def
           dest: replay_limited_early replay_forever_early)

text \<open>
  The theorem of C3 at a context with two sources and the flag clear: the call returns,
  and the flag is clear.
\<close>

theorem replay_leaves_running_false_witness:
  "\<not> running (with_sources 2)
   \<and> (\<exists>rc ctx'. tcpreplay_replay test_externs (with_sources 2) 0 = Some (Inr (rc, ctx'))
         \<and> \<not> running ctx')"
proof -
  have nr: "\<not> running (with_sources 2)" by (simp add: with_sources_def blank_ctx_def)
  from with_sources_run obtain ctx' where
    run: "tcpreplay_replay test_externs (with_sources 2) 0 = Some (Inr (0, ctx'))" by blast
  from replay_leaves_running_false [OF nr run] nr run show ?thesis by blast
qed

text \<open>
  C4. \<^verbatim>\<open>tcpreplay_get_start_time\<close> is documented to return when the replay first
  started. Its \<^verbatim>\<open>memcpy\<close> reads \<open>stats.end_time\<close>: what it stores in
  \<open>static_stats.start_time\<close> and returns is the end time. With a start time of 1 s and an
  end time of 2 s it returns 2 s.
\<close>

theorem get_start_time_returns_end_time:
  "fst (tcpreplay_get_start_time ctx) = end_time (stats ctx)
   \<and> start_time (static_stats (snd (tcpreplay_get_start_time ctx))) = end_time (stats ctx)
   \<and> fst (tcpreplay_get_start_time
            (blank_ctx\<lparr>stats := (stats blank_ctx)
               \<lparr>start_time := \<lparr>tv_sec = 1, tv_usec = 0\<rparr>, end_time := \<lparr>tv_sec = 2, tv_usec = 0\<rparr>\<rparr>\<rparr>))
       = \<lparr>tv_sec = 2, tv_usec = 0\<rparr>"
  by (simp add: tcpreplay_get_start_time_def)

text \<open>
  C5, as amended. \<^verbatim>\<open>tcpreplay_set_tcpprep_cache\<close> fails, loading nothing, when more than
  one source is configured; with no source or one source it loads the cache and leaves
  the sources as they are, so right after a load there is at most one source.
  \<^verbatim>\<open>tcpreplay_add_pcapfile\<close> does not look at the cache and leaves it as it is.
\<close>

theorem set_tcpprep_cache_guard:
  "(1 < source_cnt (options ctx) \<longrightarrow>
      tcpreplay_set_tcpprep_cache e ctx file =
        (- 1, tcpreplay_seterr ctx ''tcpreplay_set_tcpprep_cache'' 596
                ''Unable to use tcpprep cache file with a single pcap file''))
   \<and> (source_cnt (options ctx) \<le> 1 \<longrightarrow>
        (case tcpreplay_set_tcpprep_cache e ctx file of
           (rc, ctx') \<Rightarrow>
             rc = 0 \<and> cachedata (options ctx') = Some (fst (read_cache e file))
             \<and> source_cnt (options ctx') = source_cnt (options ctx)
             \<and> sources (options ctx') = sources (options ctx)))
   \<and> (\<forall>rc ctx'. tcpreplay_add_pcapfile ctx pcap_file = Inr (rc, ctx') \<longrightarrow>
         cachedata (options ctx') = cachedata (options ctx))"
  by (auto simp: tcpreplay_set_tcpprep_cache_def tcpreplay_add_pcapfile_def file_cache_reset_def
           Let_def split: prod.splits if_splits option.splits sum.splits)

text \<open>
  C5 as stated fails: a cache loaded into a new context sits beside no source at all, and
  a file added after the cache was loaded for one source makes two sources beside it.
\<close>

theorem tcpprep_cache_counterexample:
  "(case tcpreplay_set_tcpprep_cache test_externs (tcpreplay_init test_externs) ''cache'' of
      (rc, c) \<Rightarrow> rc = 0 \<and> cachedata (options c) \<noteq> None \<and> source_cnt (options c) = 0)
   \<and> (case tcpreplay_add_pcapfile
              (snd (tcpreplay_set_tcpprep_cache test_externs (with_sources 1) ''cache''))
              ''b.pcap'' of
         Inr (rc, c) \<Rightarrow> rc = 0 \<and> cachedata (options c) \<noteq> None \<and> source_cnt (options c) = 2
       | Inl f \<Rightarrow> False)"
  by (simp add: tcpreplay_set_tcpprep_cache_def tcpreplay_init_def tcpreplay_add_pcapfile_def
        file_cache_reset_def MAX_FILES_def test_defs)

text \<open>
  The theorem of C5 at a context with two sources (the load fails) and at one with one
  source (the load succeeds; a file added to it leaves the cache field as it was).
\<close>

theorem set_tcpprep_cache_guard_witness:
  "1 < source_cnt (options (with_sources 2))
   \<and> fst (tcpreplay_set_tcpprep_cache test_externs (with_sources 2) ''cache'') = - 1
   \<and> source_cnt (options (with_sources 1)) \<le> 1
   \<and> fst (tcpreplay_set_tcpprep_cache test_externs (with_sources 1) ''cache'') = 0
   \<and> cachedata (options (snd (tcpreplay_set_tcpprep_cache test_externs (with_sources 1) ''cache'')))
       = Some [0xB4]
   \<and> (case tcpreplay_add_pcapfile (with_sources 1) ''b.pcap'' of
         Inr (rc, c) \<Rightarrow> cachedata (options c) = cachedata (options (with_sources 1))
       | Inl f \<Rightarrow> False)"
proof -
  have s2: "1 < source_cnt (options (with_sources 2))"
    and s1: "source_cnt (options (with_sources 1)) \<le> 1"
    by (simp_all add: with_sources_def)
  have rc: "fst (read_cache test_externs ''cache'') = [0xB4]" by (simp add: test_externs_def)
  have "\<exists>c. tcpreplay_add_pcapfile (with_sources 1) ''b.pcap'' = Inr (0, c)"
    by (simp add: tcpreplay_add_pcapfile_def file_cache_reset_def MAX_FILES_def test_defs)
  then obtain c where add: "tcpreplay_add_pcapfile (with_sources 1) ''b.pcap'' = Inr (0, c)" ..
  note g2 = set_tcpprep_cache_guard [of "with_sources 2" test_externs "''cache''" "''b.pcap''"]
  note g1 = set_tcpprep_cache_guard [of "with_sources 1" test_externs "''cache''" "''b.pcap''"]
  from g1 add have "cachedata (options c) = cachedata (options (with_sources 1))" by blast
  with g1 g2 s1 s2 rc add show ?thesis by (auto split: prod.splits)
qed

text \<open>
  C6, as amended. \<^verbatim>\<open>tcpreplay_abort\<close> sets the abort flag, and the flag stays true across
  every later control and observer call (abort, suspend, restart, the getters).
  \<^verbatim>\<open>tcpreplay_replay\<close> does not clear it either: no statement of it writes the flag, so
  with drivers that do not write it the flag is still true when a replay returns. Only
  \<^verbatim>\<open>tcpreplay_init\<close> sets the flag to false.
\<close>

theorem abort_is_sticky:
  "abort (snd (tcpreplay_abort e ctx))
   \<and> (abort ctx \<longrightarrow> abort (foldl (control_step e) ctx ops))
   \<and> (abort ctx \<and> drivers_keep_abort e \<and> tcpreplay_replay e ctx idx = Some (Inr (rc, ctx'))
        \<longrightarrow> abort ctx')
   \<and> \<not> abort (tcpreplay_init e)"
  using control_steps_abort [of ctx e ops] tcpreplay_replay_abort [of e ctx idx rc ctx']
  by (auto simp: tcpreplay_abort_def tcpreplay_init_def Let_def split: option.splits)

text \<open>
  C6 as stated fails: a replay started after \<^verbatim>\<open>tcpreplay_abort\<close> does not reset the flag.
  It returns 0 with the flag still true, and the drivers, which saw the flag, have sent
  nothing. The same on the context \<^verbatim>\<open>tcpreplay_init\<close> makes: abort, then replay, and the
  flag is still true.
\<close>

theorem abort_survives_replay_counterexample:
  "(case tcpreplay_replay test_externs (snd (tcpreplay_abort test_externs (with_sources 2))) 0 of
      Some (Inr (rc, c)) \<Rightarrow> rc = 0 \<and> abort c \<and> pkts_sent (stats c) = 0
    | _ \<Rightarrow> False)
   \<and> (case tcpreplay_replay test_externs
            (snd (tcpreplay_abort test_externs (tcpreplay_init test_externs))) 0 of
      Some (Inr (rc, c)) \<Rightarrow> rc = 0 \<and> abort c
    | _ \<Rightarrow> False)"
  by (simp add: tcpreplay_replay_def tcpreplay_abort_def tcpreplay_init_def test_defs
        replay_limited.simps replay_sources.simps replay_source_def)

text \<open>
  The theorem of C6 at a context with two sources: after \<^verbatim>\<open>tcpreplay_abort\<close> the flag is
  set, it is still set after seven further calls, and still set when a replay returns.
\<close>

theorem abort_is_sticky_witness:
  "abort (snd (tcpreplay_abort test_externs (with_sources 2)))
   \<and> abort (foldl (control_step test_externs) (snd (tcpreplay_abort test_externs (with_sources 2)))
              [Suspend, GetStats, Restart, IsRunning, GetStartTime, Abort, GetErr])
   \<and> drivers_keep_abort test_externs
   \<and> (\<exists>rc ctx'. tcpreplay_replay test_externs (snd (tcpreplay_abort test_externs (with_sources 2))) 0
                   = Some (Inr (rc, ctx')) \<and> abort ctx')"
proof -
  let ?c = "snd (tcpreplay_abort test_externs (with_sources 2))"
  have a: "abort ?c"
    using abort_is_sticky [of test_externs "with_sources 2" "[]" 0 0 "with_sources 2"] by blast
  have "sources_valid (options ?c)" "source_cnt (options ?c) = 2" "loop (options ?c) = 1"
    "file_cache (options ?c) \<noteq> None"
    by (simp_all add: sources_valid_def tcpreplay_abort_def with_sources_def blank_ctx_def)
  with tcpreplay_replay_completes [OF test_externs_frame test_externs_ok, of ?c 0 "\<lparr>tv_sec = 100, tv_usec = 0\<rparr>"]
  obtain ctx' where run: "tcpreplay_replay test_externs ?c 0 = Some (Inr (0, ctx'))"
    by (auto simp: test_externs_def)
  from abort_is_sticky [of test_externs ?c
      "[Suspend, GetStats, Restart, IsRunning, GetStartTime, Abort, GetErr]" 0 0 ctx']
    a test_externs_keep_abort run
  show ?thesis by blast
qed

text \<open>
  C7. \<^verbatim>\<open>tcpreplay_add_pcapfile\<close> writes entry \<open>source_cnt\<close> of the file cache through the
  pointer \<open>file_cache\<close>, which nothing in the file allocates. On the context that
  \<^verbatim>\<open>tcpreplay_init\<close> makes from zero-filled memory the count is 0, below \<open>MAX_FILES\<close>,
  the pointer is \<^verbatim>\<open>NULL\<close>, and the call does not return 0: it writes through \<^verbatim>\<open>NULL\<close>.
\<close>

theorem add_pcapfile_after_init_faults:
  "source_cnt (options (tcpreplay_init test_externs)) < MAX_FILES
   \<and> file_cache (options (tcpreplay_init test_externs)) = None
   \<and> tcpreplay_add_pcapfile (tcpreplay_init test_externs) ''a.pcap'' = Inl NullDeref"
  by (simp add: tcpreplay_add_pcapfile_def tcpreplay_init_def file_cache_reset_def
        MAX_FILES_def test_defs)

text \<open>
  C8, as amended. \<^verbatim>\<open>tcpreplay_set_mtu\<close> checks nothing: for every value, below 64 or not,
  it stores the value as the MTU, changes nothing else and returns 0.
\<close>

theorem set_mtu_stores_every_value:
  "fst (tcpreplay_set_mtu ctx v) = 0
   \<and> snd (tcpreplay_set_mtu ctx v) = ctx\<lparr>options := (options ctx)\<lparr>mtu := v\<rparr>\<rparr>
   \<and> mtu (options (snd (tcpreplay_set_mtu ctx v))) = v"
  by (simp add: tcpreplay_set_mtu_def)

text \<open>
  C8 as stated fails: the value 10 is below 64, and on a new context, whose MTU is the
  default of 1500, the call returns 0 and stores 10.
\<close>

theorem set_mtu_counterexample:
  "fst (tcpreplay_set_mtu (tcpreplay_init test_externs) 10) = 0
   \<and> mtu (options (tcpreplay_init test_externs)) = 1500
   \<and> mtu (options (snd (tcpreplay_set_mtu (tcpreplay_init test_externs) 10))) = 10"
  by (simp add: tcpreplay_set_mtu_def tcpreplay_init_def test_externs_def blank_ctx_def)

text \<open>
  C9, as amended. With drivers that keep to their frame (of the options they change at
  most the contents of the file cache), a call with \<open>loop = n > 0\<close> returns, and when it
  returns 0 the loop counter has been decremented through zero and has wrapped: it is
  \<open>2^32 - 1\<close>, whatever \<open>n\<close> was. So it differs from \<open>n\<close> unless \<open>n\<close> is \<open>2^32 - 1\<close> itself,
  and a second replay on the same context starts from \<open>2^32 - 1\<close>. Every other option
  field is as before (the file cache as the drivers left it). The call does return 0
  when the index is from 0 to \<open>source_cnt\<close>, the clock works, the sources have known
  types, no driver fails and the initialisation loop has no entry to write through a
  \<^verbatim>\<open>NULL\<close> file cache.
\<close>

theorem replay_consumes_loop:
  assumes "drivers_frame e" and "loop (options ctx) = n" and "n \<noteq> 0"
  shows "(\<exists>res. tcpreplay_replay e ctx idx = Some res)
       \<and> (\<forall>ctx'. tcpreplay_replay e ctx idx = Some (Inr (0, ctx')) \<longrightarrow>
             options ctx' = (options ctx)\<lparr>loop := - 1, file_cache := file_cache (options ctx')\<rparr>
             \<and> unat (loop (options ctx')) = 2 ^ 32 - 1
             \<and> (loop (options ctx') = n \<longleftrightarrow> n = 0xFFFFFFFF))
       \<and> (0 \<le> idx \<and> idx \<le> source_cnt (options ctx) \<and> gettimeofday e \<noteq> None
            \<and> drivers_ok e \<and> sources_valid (options ctx)
            \<and> \<not> (enable_file_cache (options ctx) \<and> file_cache (options ctx) = None
                   \<and> 0 < source_cnt (options ctx))
          \<longrightarrow> (\<exists>ctx'. tcpreplay_replay e ctx idx = Some (Inr (0, ctx'))))"
proof (intro conjI allI impI)
  from assms have l: "loop (options ctx) \<noteq> 0" by simp
  show "\<exists>res. tcpreplay_replay e ctx idx = Some res"
    by (rule tcpreplay_replay_returns [OF assms(1) l])
  show "\<exists>ctx'. tcpreplay_replay e ctx idx = Some (Inr (0, ctx'))"
    if "0 \<le> idx \<and> idx \<le> source_cnt (options ctx) \<and> gettimeofday e \<noteq> None
        \<and> drivers_ok e \<and> sources_valid (options ctx)
        \<and> \<not> (enable_file_cache (options ctx) \<and> file_cache (options ctx) = None
               \<and> 0 < source_cnt (options ctx))"
    using that tcpreplay_replay_completes [OF assms(1), of ctx idx] l by blast
  fix ctx'
  assume run: "tcpreplay_replay e ctx idx = Some (Inr (0, ctx'))"
  define F where "F = file_cache (options ctx')"
  from tcpreplay_replay_frame [OF assms(1) l run]
  have eq: "options ctx' = (options ctx)\<lparr>loop := - 1, file_cache := F\<rparr>"
    by (simp add: F_def)
  then show "options ctx' = (options ctx)\<lparr>loop := - 1, file_cache := file_cache (options ctx')\<rparr>"
    by (simp add: F_def)
  from eq have m: "loop (options ctx') = - 1" by simp
  then show "unat (loop (options ctx')) = 2 ^ 32 - 1" by (simp add: u32_minus_one)
  from m assms(2) show "loop (options ctx') = n \<longleftrightarrow> n = 0xFFFFFFFF"
    by (auto simp: u32_minus_one)
qed

text \<open>
  C9 as stated fails for \<open>n = 2^32 - 1\<close>: on a new context with the loop count set to
  \<open>2^32 - 1\<close> a normal run leaves the counter at \<open>2^32 - 1\<close> again, equal to \<open>n\<close>, so a
  second replay makes the same \<open>n\<close> passes.
\<close>

theorem loop_max_counterexample:
  "case tcpreplay_replay test_externs
          (snd (tcpreplay_set_loop (tcpreplay_init test_externs) 0xFFFFFFFF)) 0 of
     Some (Inr (rc, c)) \<Rightarrow>
       rc = 0 \<and> loop (options c) = 0xFFFFFFFF
       \<and> loop (options (snd (tcpreplay_set_loop (tcpreplay_init test_externs) 0xFFFFFFFF)))
           = 0xFFFFFFFF
   | _ \<Rightarrow> False"
proof -
  let ?c = "snd (tcpreplay_set_loop (tcpreplay_init test_externs) 0xFFFFFFFF)"
  have "sources_valid (options ?c)" "source_cnt (options ?c) = 0"
    and l: "loop (options ?c) = 0xFFFFFFFF"
    by (simp_all add: sources_valid_def tcpreplay_set_loop_def tcpreplay_init_def
          test_externs_def blank_ctx_def)
  with tcpreplay_replay_completes [OF test_externs_frame test_externs_ok, of ?c 0 "\<lparr>tv_sec = 100, tv_usec = 0\<rparr>"]
  obtain ctx' fc where "tcpreplay_replay test_externs ?c 0 = Some (Inr (0, ctx'))"
    "options ctx' = (options ?c)\<lparr>loop := - 1, file_cache := fc\<rparr>"
    by (auto simp: test_externs_def)
  then show ?thesis using l by (simp add: u32_minus_one)
qed

text \<open>
  The theorem of C9 at a context with two sources and \<open>loop = 3\<close>: the call returns 0
  after three passes (six packets), the counter is \<open>2^32 - 1\<close>, the MTU and the source
  count are as before.
\<close>

theorem replay_consumes_loop_witness:
  "drivers_frame test_externs
   \<and> loop (options ((with_sources 2)\<lparr>options := (options (with_sources 2))\<lparr>loop := 3\<rparr>\<rparr>)) = 3
   \<and> (3 :: u_int32_t) \<noteq> 0
   \<and> (\<exists>ctx'. tcpreplay_replay test_externs
                 ((with_sources 2)\<lparr>options := (options (with_sources 2))\<lparr>loop := 3\<rparr>\<rparr>) 0
               = Some (Inr (0, ctx'))
         \<and> loop (options ctx') = 0xFFFFFFFF \<and> mtu (options ctx') = 1500
         \<and> source_cnt (options ctx') = 2 \<and> pkts_sent (stats ctx') = 6)"
proof -
  let ?c = "(with_sources 2)\<lparr>options := (options (with_sources 2))\<lparr>loop := 3\<rparr>\<rparr>"
  have l: "loop (options ?c) = 3" by simp
  have run: "\<exists>ctx'. tcpreplay_replay test_externs ?c 0 = Some (Inr (0, ctx'))
               \<and> pkts_sent (stats ctx') = 6"
    by (simp add: tcpreplay_replay_def test_defs
        replay_limited.simps replay_sources.simps replay_source_def)
  then obtain ctx' where r: "tcpreplay_replay test_externs ?c 0 = Some (Inr (0, ctx'))"
    and p: "pkts_sent (stats ctx') = 6" by blast
  define F where "F = file_cache (options ctx')"
  from replay_consumes_loop [OF test_externs_frame l, of 0] r
  have "options ctx' = (options ?c)\<lparr>loop := - 1, file_cache := F\<rparr>"
    by (simp add: F_def)
  then have "loop (options ctx') = 0xFFFFFFFF \<and> mtu (options ctx') = 1500
             \<and> source_cnt (options ctx') = 2"
    by (simp add: u32_minus_one with_sources_def)
  with r p l test_externs_frame show ?thesis by auto
qed

text \<open>
  C10. The file cache is reached through a pointer that may be \<^verbatim>\<open>NULL\<close>, and both places
  write through it without having storage: the initialisation loop of \<^verbatim>\<open>tcpreplay_replay\<close>
  runs exactly when the pointer is \<^verbatim>\<open>NULL\<close> and writes entry 0 as soon as there is one
  source, and \<^verbatim>\<open>tcpreplay_add_pcapfile\<close> writes entry \<open>source_cnt\<close> without a test. The
  second is reached from \<^verbatim>\<open>tcpreplay_init\<close> by the API alone: init, enable the file cache,
  add a file.
\<close>

theorem file_cache_null_deref:
  "tcpreplay_replay e
     (ctx\<lparr>options := (options ctx)\<lparr>enable_file_cache := True, file_cache := None,
                                    source_cnt := 1\<rparr>\<rparr>) 0
     = Some (Inl NullDeref)
   \<and> tcpreplay_add_pcapfile
       (ctx\<lparr>options := (options ctx)\<lparr>file_cache := None, source_cnt := 0\<rparr>\<rparr>) pcap_file
     = Inl NullDeref
   \<and> tcpreplay_add_pcapfile
       (snd (tcpreplay_set_file_cache (tcpreplay_init test_externs) True)) ''a.pcap''
     = Inl NullDeref"
  by (simp add: tcpreplay_replay_def init_file_cache_none tcpreplay_add_pcapfile_def
        file_cache_reset_def MAX_FILES_def tcpreplay_set_file_cache_def tcpreplay_init_def
        test_externs_def blank_ctx_def)

section \<open>Beyond the claims\<close>

text \<open>
  X1. Where the file cache has storage, \<^verbatim>\<open>tcpreplay_add_pcapfile\<close> counts as C7 says:
  below \<open>MAX_FILES\<close> it returns 0, stores the file name in entry \<open>source_cnt\<close> of the
  sources, leaves the other entries alone and adds one to \<open>source_cnt\<close>; at \<open>MAX_FILES\<close>
  (and above) it returns -1, sets the error string and leaves the options as they are.
\<close>

theorem add_pcapfile_with_storage:
  assumes "file_cache (options ctx) = Some fc"
  shows "(source_cnt (options ctx) < MAX_FILES \<longrightarrow>
            (\<exists>ctx'. tcpreplay_add_pcapfile ctx pcap_file = Inr (0, ctx')
               \<and> source_cnt (options ctx') = source_cnt (options ctx) + 1
               \<and> filename (sources (options ctx') (source_cnt (options ctx))) = Some pcap_file
               \<and> (\<forall>i. i \<noteq> source_cnt (options ctx) \<longrightarrow>
                     sources (options ctx') i = sources (options ctx) i)))
       \<and> (MAX_FILES \<le> source_cnt (options ctx) \<longrightarrow>
            tcpreplay_add_pcapfile ctx pcap_file =
              Inr (- 1, tcpreplay_seterr ctx ''tcpreplay_add_pcapfile'' 566
                          (''Unable to add more then '' @ fmt_u (nat MAX_FILES) @ '' files'')))"
  using assms
  by (simp add: tcpreplay_add_pcapfile_def file_cache_reset_def Let_def)

text \<open>
  The theorem of X1 at the bound: with 1023 sources a file is added and the count is
  \<open>MAX_FILES\<close>; with 1024 the call fails and the options are unchanged.
\<close>

theorem add_pcapfile_with_storage_witness:
  "file_cache (options (with_sources 1023)) \<noteq> None
   \<and> source_cnt (options (with_sources 1023)) < MAX_FILES
   \<and> (\<exists>ctx'. tcpreplay_add_pcapfile (with_sources 1023) ''b.pcap'' = Inr (0, ctx')
         \<and> source_cnt (options ctx') = MAX_FILES)
   \<and> (\<exists>ctx'. tcpreplay_add_pcapfile (with_sources 1024) ''b.pcap'' = Inr (- 1, ctx')
         \<and> options ctx' = options (with_sources 1024))"
proof -
  obtain fc where fc: "file_cache (options (with_sources 1023)) = Some fc"
    "file_cache (options (with_sources 1024)) = Some fc"
    by (simp add: with_sources_def)
  have s: "source_cnt (options (with_sources 1023)) = 1023"
    "source_cnt (options (with_sources 1024)) = 1024" "MAX_FILES = 1024"
    by (simp_all add: with_sources_def MAX_FILES_def)
  from add_pcapfile_with_storage [OF fc(1), of "''b.pcap''"]
    add_pcapfile_with_storage [OF fc(2), of "''b.pcap''"] fc s
  show ?thesis by auto
qed

end
